theory Spec2Isabelle
  imports Main
begin

section \<open>JavaScript values read by the component\<close>

text \<open>
  An optional, nullable field of a TypeScript object (\<open>f?: T | null\<close>) holds
  \<open>undefined\<close>, \<open>null\<close> or a value.
\<close>

datatype 'a nullable = Undefined | Null | Val 'a

text \<open>
  Truthiness as JavaScript decides it: \<open>undefined\<close>, \<open>null\<close> and the empty string are
  falsy; every other string and every array (the empty one too) is truthy.
\<close>

fun truthy_string :: "string nullable \<Rightarrow> bool" where
  "truthy_string (Val s) = (s \<noteq> [])"
| "truthy_string Undefined = False"
| "truthy_string Null = False"

fun truthy_array :: "'a list nullable \<Rightarrow> bool" where
  "truthy_array (Val xs) = True"
| "truthy_array Undefined = False"
| "truthy_array Null = False"

text \<open>The operator \<open>a || b\<close> on strings: \<open>a\<close> when it is truthy, \<open>b\<close> otherwise.\<close>

definition js_or :: "string nullable \<Rightarrow> string nullable \<Rightarrow> string nullable" where
  "js_or a b = (if truthy_string a then a else b)"

section \<open>The launch request\<close>

text \<open>
  \<open>LaunchPipelineExecutionVariables\<close> (runs/types/LaunchPipelineExecution) wraps the
  execution parameters; their selector names the job or pipeline and the optional
  subset of ops. The component reads the selector only; the remaining execution
  parameters (run configuration, mode, tags) are carried along as \<open>otherParams\<close>.
\<close>

record JobOrPipelineSelector =
  pipelineName :: "string nullable"
  jobName :: "string nullable"
  repositoryName :: string
  repositoryLocationName :: string
  solidSelection :: "string list nullable"

record 'c ExecutionParams =
  selector :: JobOrPipelineSelector
  otherParams :: 'c

record 'c LaunchPipelineExecutionVariables =
  executionParams :: "'c ExecutionParams"

datatype behavior = Open | OpenInNewTab | Toast

text \<open>
  \<open>TelemetryAction\<close> is the enumeration of app/Telemetry; the component uses its member
  \<open>LAUNCH_RUN\<close> only, the other members are kept by name.
\<close>

datatype TelemetryAction = LAUNCH_RUN | OtherAction string

text \<open>The metadata object: \<open>{[key: string]: string | null | undefined}\<close>.\<close>

type_synonym metadata = "string \<rightharpoonup> string nullable"

section \<open>Effects: collaborator calls, exceptions, try and catch\<close>

text \<open>
  A call either returns a value or throws; awaiting a promise that rejects throws the
  rejection's reason, so a rejected promise is \<open>Throws\<close> as well.
\<close>

datatype ('e, 'a) completion = Returns 'a | Throws 'e

text \<open>The calls the click handler makes to the outside, with their arguments.\<close>

datatype ('c, 'r, 'e, 'h) call =
  CallLaunchPipelineExecution "'c LaunchPipelineExecutionVariables"
| CallLogTelemetry TelemetryAction metadata
| CallHandleLaunchResult string 'r 'h behavior
| CallShowLaunchError 'e

text \<open>
  A computation is the list of calls it made, in order, and how it completed.
  \<open>perform\<close> is one call; \<open>bind\<close> is sequencing (a statement after a throw does
  not run); \<open>try_catch\<close> runs the handler on the thrown value.
\<close>

type_synonym ('ev, 'e, 'a) eff = "'ev list \<times> ('e, 'a) completion"

definition perform :: "'ev \<Rightarrow> ('e, 'a) completion \<Rightarrow> ('ev, 'e, 'a) eff" where
  "perform ev c = ([ev], c)"

definition bind :: "('ev, 'e, 'a) eff \<Rightarrow> ('a \<Rightarrow> ('ev, 'e, 'b) eff) \<Rightarrow> ('ev, 'e, 'b) eff" where
  "bind m f =
     (case m of
        (t, Throws e) \<Rightarrow> (t, Throws e)
      | (t, Returns a) \<Rightarrow> (case f a of (t', c) \<Rightarrow> (t @ t', c)))"

definition try_catch :: "('ev, 'e, 'a) eff \<Rightarrow> ('e \<Rightarrow> ('ev, 'e, 'a) eff) \<Rightarrow> ('ev, 'e, 'a) eff" where
  "try_catch m h =
     (case m of
        (t, Returns a) \<Rightarrow> (t, Returns a)
      | (t, Throws e) \<Rightarrow> (case h e of (t', c) \<Rightarrow> (t @ t', c)))"

section \<open>The component's surroundings\<close>

text \<open>
  What the hooks and imports give the component: the permission flag of
  \<open>usePermissions\<close> and its \<open>DISABLED_MESSAGE\<close>, the mutation function of
  \<open>useMutation\<close>, the telemetry function of \<open>useTelemetryAction\<close>, the router's
  history and \<open>handleLaunchResult\<close> of runs/RunUtils. Their code is outside the
  component, so each is a parameter, and each of the three calls inside the
  \<open>try\<close> block may return or throw. The handler calls each of them at most once, so a
  function of the arguments covers every behaviour.
\<close>

record ('c, 'r, 'e, 'h) env =
  canLaunchPipelineExecution :: bool
  DISABLED_MESSAGE :: string
  launchPipelineExecution :: "'c LaunchPipelineExecutionVariables \<Rightarrow> ('e, 'r) completion"
  logTelemetry :: "TelemetryAction \<Rightarrow> metadata \<Rightarrow> ('e, unit) completion"
  handleLaunchResult :: "string \<Rightarrow> 'r \<Rightarrow> 'h \<Rightarrow> behavior \<Rightarrow> ('e, unit) completion"
  history :: 'h

text \<open>
  \<open>LaunchRootExecutionButtonProps\<close>. The provider \<open>getVariables\<close> has the type
  \<open>() => undefined | LaunchPipelineExecutionVariables\<close>: \<open>None\<close> is \<open>undefined\<close>.
  It is a function the parent passes in, so its call may throw like any other call.
\<close>

record ('c, 'e) props =
  props_disabled :: bool
  props_getVariables ::
    "unit \<Rightarrow> ('e, 'c LaunchPipelineExecutionVariables option) completion"
  props_behavior :: behavior
  props_pipelineName :: string
  props_title :: "string nullable"
  props_icon :: "string nullable"

text \<open>
  Modelled from the spec: \<open>showLaunchError\<close> (launchpad/showLaunchError, not among the
  sources). The spec's error presentation surface "accepts a thrown/caught error
  object and displays it to the user": one call that receives the error and returns.
\<close>

definition showLaunchError :: "'e \<Rightarrow> (('c, 'r, 'e, 'h) call, 'e, unit) eff" where
  "showLaunchError error = perform (CallShowLaunchError error) (Returns ())"

section \<open>The click handler\<close>

text \<open>
  The metadata that \<open>onLaunch\<close> builds before the \<open>try\<close> block: \<open>opSelection\<close> is set
  when the selector's \<open>solidSelection\<close> is truthy, \<open>jobName\<close> is always assigned.
\<close>

definition onLaunch_metadata :: "'c LaunchPipelineExecutionVariables \<Rightarrow> metadata" where
  "onLaunch_metadata variables =
     (let metadata0 = Map.empty;
          metadata1 =
            (if truthy_array (solidSelection (selector (executionParams variables)))
             then metadata0(''opSelection'' \<mapsto> Val ''provided'')
             else metadata0)
      in metadata1(''jobName'' \<mapsto>
           js_or (jobName (selector (executionParams variables)))
                 (pipelineName (selector (executionParams variables)))))"

text \<open>
  The handler. The provider is called first, outside the \<open>try\<close> block: an exception
  it throws leaves the handler, which then rejects. The provider is the component's own
  property and not a call to a service, so the trace does not list it.
\<close>

definition onLaunch ::
  "('c, 'e) props \<Rightarrow> ('c, 'r, 'e, 'h) env \<Rightarrow> (('c, 'r, 'e, 'h) call, 'e, unit) eff" where
  "onLaunch props env =
     (case props_getVariables props () of
        Throws error \<Rightarrow> ([], Throws error)
      | Returns None \<Rightarrow> ([], Returns ())
      | Returns (Some variables) \<Rightarrow>
          (let metadata = onLaunch_metadata variables in
           try_catch
             (bind (perform (CallLaunchPipelineExecution variables)
                      (launchPipelineExecution env variables))
                (\<lambda>result.
                   bind (perform (CallLogTelemetry LAUNCH_RUN metadata)
                           (logTelemetry env LAUNCH_RUN metadata))
                     (\<lambda>_. perform
                        (CallHandleLaunchResult (props_pipelineName props) result
                           (history env) (props_behavior props))
                        (handleLaunchResult env (props_pipelineName props) result
                           (history env) (props_behavior props)))))
             (\<lambda>error. showLaunchError error)))"

section \<open>The rendered element\<close>

text \<open>
  The component renders one \<open>LaunchButton\<close> with \<open>runCount = 1\<close> and this
  configuration; \<open>onClick\<close> is the handler above.
\<close>

record ('c, 'r, 'e, 'h) LaunchButtonConfig =
  onClick :: "unit \<Rightarrow> (('c, 'r, 'e, 'h) call, 'e, unit) eff"
  icon :: "string nullable"
  title :: "string nullable"
  disabled :: bool
  tooltip :: "string nullable"

record ('c, 'r, 'e, 'h) LaunchButtonProps =
  runCount :: nat
  config :: "('c, 'r, 'e, 'h) LaunchButtonConfig"

definition LaunchRootExecutionButton ::
  "('c, 'e) props \<Rightarrow> ('c, 'r, 'e, 'h) env \<Rightarrow> ('c, 'r, 'e, 'h) LaunchButtonProps" where
  "LaunchRootExecutionButton props env =
     \<lparr> runCount = 1,
       config =
         \<lparr> onClick = (\<lambda>_. onLaunch props env),
           icon = js_or (props_icon props) (Val ''open_in_new''),
           title = js_or (props_title props) (Val ''Launch Run''),
           disabled = (props_disabled props \<or> \<not> canLaunchPipelineExecution env),
           tooltip =
             (if \<not> canLaunchPipelineExecution env then Val (DISABLED_MESSAGE env)
              else Undefined) \<rparr> \<rparr>"

section \<open>Reading a trace\<close>

text \<open>The network calls (mutation invocations) and the telemetry emissions of a trace.\<close>

fun is_mutation_call :: "('c, 'r, 'e, 'h) call \<Rightarrow> bool" where
  "is_mutation_call (CallLaunchPipelineExecution v) = True"
| "is_mutation_call (CallLogTelemetry a m) = False"
| "is_mutation_call (CallHandleLaunchResult n r h b) = False"
| "is_mutation_call (CallShowLaunchError e) = False"

fun telemetry_of :: "('c, 'r, 'e, 'h) call list \<Rightarrow> (TelemetryAction \<times> metadata) list" where
  "telemetry_of [] = []"
| "telemetry_of (CallLogTelemetry a m # t) = (a, m) # telemetry_of t"
| "telemetry_of (CallLaunchPipelineExecution v # t) = telemetry_of t"
| "telemetry_of (CallHandleLaunchResult n r h b # t) = telemetry_of t"
| "telemetry_of (CallShowLaunchError e # t) = telemetry_of t"

section \<open>Concrete requests and surroundings\<close>

text \<open>
  A request for the job \<open>my_job\<close> with the ops \<open>a\<close> and \<open>b\<close> selected, a legacy
  request that names only a pipeline, and a request with no name at all.
\<close>

definition job_variables :: "unit LaunchPipelineExecutionVariables" where
  "job_variables =
     \<lparr> executionParams =
         \<lparr> selector =
             \<lparr> pipelineName = Val ''legacy'', jobName = Val ''my_job'',
               repositoryName = ''repo'', repositoryLocationName = ''loc'',
               solidSelection = Val [''a'', ''b''] \<rparr>,
           otherParams = () \<rparr> \<rparr>"

definition pipeline_variables :: "unit LaunchPipelineExecutionVariables" where
  "pipeline_variables =
     \<lparr> executionParams =
         \<lparr> selector =
             \<lparr> pipelineName = Val ''legacy'', jobName = Undefined,
               repositoryName = ''repo'', repositoryLocationName = ''loc'',
               solidSelection = Null \<rparr>,
           otherParams = () \<rparr> \<rparr>"

definition nameless_variables :: "unit LaunchPipelineExecutionVariables" where
  "nameless_variables =
     \<lparr> executionParams =
         \<lparr> selector =
             \<lparr> pipelineName = Val '''', jobName = Undefined,
               repositoryName = ''repo'', repositoryLocationName = ''loc'',
               solidSelection = Undefined \<rparr>,
           otherParams = () \<rparr> \<rparr>"

definition props_with ::
  "(string, unit LaunchPipelineExecutionVariables option) completion \<Rightarrow>
   (unit, string) props" where
  "props_with provided =
     \<lparr> props_disabled = False, props_getVariables = (\<lambda>_. provided),
       props_behavior = Open, props_pipelineName = ''my_job'',
       props_title = Undefined, props_icon = Undefined \<rparr>"

text \<open>
  Surroundings in which the mutation, the telemetry function and the result handler
  complete as given; the mutation's result, when it returns, is the run id \<open>run1\<close>.
\<close>

definition env_with ::
  "bool \<Rightarrow> (string, string) completion \<Rightarrow> (string, unit) completion \<Rightarrow>
   (string, unit) completion \<Rightarrow> (unit, string, string, unit) env" where
  "env_with can submitted logged handled =
     \<lparr> canLaunchPipelineExecution = can,
       DISABLED_MESSAGE = ''no permission'',
       launchPipelineExecution = (\<lambda>_. submitted),
       logTelemetry = (\<lambda>_ _. logged),
       handleLaunchResult = (\<lambda>_ _ _ _. handled),
       history = () \<rparr>"

section \<open>The handler's runs, case by case\<close>

lemma onLaunch_no_variables:
  "props_getVariables props () = Returns None \<Longrightarrow> onLaunch props env = ([], Returns ())"
  by (simp add: onLaunch_def)

lemma onLaunch_submission_throws:
  assumes "props_getVariables props () = Returns (Some v)"
    and "launchPipelineExecution env v = Throws e"
  shows "onLaunch props env =
           ([CallLaunchPipelineExecution v, CallShowLaunchError e], Returns ())"
  using assms
  by (simp add: onLaunch_def try_catch_def bind_def perform_def showLaunchError_def)

lemma onLaunch_telemetry_throws:
  assumes "props_getVariables props () = Returns (Some v)"
    and "launchPipelineExecution env v = Returns r"
    and "logTelemetry env LAUNCH_RUN (onLaunch_metadata v) = Throws e"
  shows "onLaunch props env =
           ([CallLaunchPipelineExecution v,
             CallLogTelemetry LAUNCH_RUN (onLaunch_metadata v),
             CallShowLaunchError e], Returns ())"
  using assms
  by (simp add: onLaunch_def try_catch_def bind_def perform_def showLaunchError_def)

lemma onLaunch_handler_throws:
  assumes "props_getVariables props () = Returns (Some v)"
    and "launchPipelineExecution env v = Returns r"
    and "logTelemetry env LAUNCH_RUN (onLaunch_metadata v) = Returns u"
    and "handleLaunchResult env (props_pipelineName props) r (history env)
           (props_behavior props) = Throws e"
  shows "onLaunch props env =
           ([CallLaunchPipelineExecution v,
             CallLogTelemetry LAUNCH_RUN (onLaunch_metadata v),
             CallHandleLaunchResult (props_pipelineName props) r (history env)
               (props_behavior props),
             CallShowLaunchError e], Returns ())"
  using assms
  by (simp add: onLaunch_def try_catch_def bind_def perform_def showLaunchError_def)

lemma onLaunch_all_return:
  assumes "props_getVariables props () = Returns (Some v)"
    and "launchPipelineExecution env v = Returns r"
    and "logTelemetry env LAUNCH_RUN (onLaunch_metadata v) = Returns u"
    and "handleLaunchResult env (props_pipelineName props) r (history env)
           (props_behavior props) = Returns u'"
  shows "onLaunch props env =
           ([CallLaunchPipelineExecution v,
             CallLogTelemetry LAUNCH_RUN (onLaunch_metadata v),
             CallHandleLaunchResult (props_pipelineName props) r (history env)
               (props_behavior props)], Returns ())"
  using assms
  by (simp add: onLaunch_def try_catch_def bind_def perform_def showLaunchError_def)

lemma onLaunch_provider_throws:
  "props_getVariables props () = Throws e \<Longrightarrow> onLaunch props env = ([], Throws e)"
  by (simp add: onLaunch_def)

lemma onLaunch_completes:
  "props_getVariables props () = Returns x \<Longrightarrow> snd (onLaunch props env) = Returns ()"
  by (simp add: onLaunch_def try_catch_def bind_def perform_def showLaunchError_def Let_def
      split: option.splits completion.splits)

lemma onLaunch_no_call_iff:
  assumes "props_getVariables props () = Returns x"
  shows "(fst (onLaunch props env) = []) = (x = None)"
  using assms
  by (simp add: onLaunch_def try_catch_def bind_def perform_def showLaunchError_def Let_def
      split: option.splits completion.splits)

lemma telemetry_of_onLaunch:
  assumes "props_getVariables props () = Returns (Some v)"
  shows "telemetry_of (fst (onLaunch props env)) =
           (case launchPipelineExecution env v of
              Returns r \<Rightarrow> [(LAUNCH_RUN, onLaunch_metadata v)]
            | Throws e \<Rightarrow> [])"
  using assms
  by (simp add: onLaunch_def try_catch_def bind_def perform_def showLaunchError_def Let_def
      split: completion.splits)

lemma mutation_calls_of_onLaunch:
  assumes "props_getVariables props () = Returns (Some v)"
  shows "filter is_mutation_call (fst (onLaunch props env)) =
           [CallLaunchPipelineExecution v]"
  using assms
  by (simp add: onLaunch_def try_catch_def bind_def perform_def showLaunchError_def Let_def
      split: completion.splits)

lemma emitted_metadata:
  assumes "props_getVariables props () = Returns (Some v)"
    and "(a, md) \<in> set (telemetry_of (fst (onLaunch props env)))"
  shows "a = LAUNCH_RUN \<and> md = onLaunch_metadata v"
  using assms(2) telemetry_of_onLaunch [OF assms(1), of env]
  by (cases "launchPipelineExecution env v") simp_all

section \<open>The metadata, key by key\<close>

lemma onLaunch_metadata_opSelection:
  "onLaunch_metadata v ''opSelection'' =
     (if truthy_array (solidSelection (selector (executionParams v)))
      then Some (Val ''provided'') else None)"
  by (simp add: onLaunch_metadata_def Let_def)

lemma onLaunch_metadata_jobName:
  "onLaunch_metadata v ''jobName'' =
     Some (js_or (jobName (selector (executionParams v)))
                 (pipelineName (selector (executionParams v))))"
  by (simp add: onLaunch_metadata_def Let_def)

lemma truthy_array_iff: "truthy_array x = (\<exists>xs. x = Val xs)"
  by (cases x) simp_all

lemma truthy_string_iff: "truthy_string x = (\<exists>s. x = Val s \<and> s \<noteq> [])"
  by (cases x) simp_all

lemma falsy_string_iff: "(\<not> truthy_string x) = (x \<in> {Undefined, Null, Val []})"
  by (cases x) auto

section \<open>The claims\<close>

text \<open>
  C1. When the parameter provider \<open>getVariables\<close> returns no request, the handler makes
  no network call (the mutation is not invoked) and emits no telemetry; it makes no call
  at all and returns.
\<close>

theorem no_request_is_silent_noop:
  assumes "props_getVariables props () = Returns None"
  shows "filter is_mutation_call (fst (onLaunch props env)) = [] \<and>
         telemetry_of (fst (onLaunch props env)) = [] \<and>
         onLaunch props env = ([], Returns ())"
  using onLaunch_no_variables [OF assms, of env] by simp

theorem no_request_is_silent_noop_witness:
  "props_getVariables (props_with (Returns None)) () = Returns None \<and>
   onLaunch (props_with (Returns None))
     (env_with True (Returns ''run1'') (Returns ()) (Returns ())) = ([], Returns ())"
proof -
  have h: "props_getVariables (props_with (Returns None)) () = Returns None"
    by (simp add: props_with_def)
  show ?thesis
    using h no_request_is_silent_noop [OF h,
        of "env_with True (Returns ''run1'') (Returns ()) (Returns ())"]
    by simp
qed

text \<open>
  C3. In an invocation that reaches the submission call, the telemetry event is emitted
  exactly when the call completes without throwing: then it is emitted once, as the call
  right after the mutation (so before the result handler sees the result), and when the
  mutation throws or rejects no telemetry is emitted.
\<close>

theorem telemetry_exactly_when_submission_returns:
  assumes "props_getVariables props () = Returns (Some v)"
  shows "telemetry_of (fst (onLaunch props env)) =
           (case launchPipelineExecution env v of
              Returns r \<Rightarrow> [(LAUNCH_RUN, onLaunch_metadata v)]
            | Throws e \<Rightarrow> []) \<and>
         (\<forall>r. launchPipelineExecution env v = Returns r \<longrightarrow>
            take 2 (fst (onLaunch props env)) =
              [CallLaunchPipelineExecution v,
               CallLogTelemetry LAUNCH_RUN (onLaunch_metadata v)])"
proof (intro conjI allI impI)
  show "telemetry_of (fst (onLaunch props env)) =
          (case launchPipelineExecution env v of
             Returns r \<Rightarrow> [(LAUNCH_RUN, onLaunch_metadata v)]
           | Throws e \<Rightarrow> [])"
    by (rule telemetry_of_onLaunch [OF assms])
next
  fix r
  assume r: "launchPipelineExecution env v = Returns r"
  show "take 2 (fst (onLaunch props env)) =
          [CallLaunchPipelineExecution v,
           CallLogTelemetry LAUNCH_RUN (onLaunch_metadata v)]"
  proof (cases "logTelemetry env LAUNCH_RUN (onLaunch_metadata v)")
    case (Throws e)
    then show ?thesis
      by (simp add: onLaunch_telemetry_throws [OF assms r])
  next
    case logged: (Returns u)
    show ?thesis
    proof (cases "handleLaunchResult env (props_pipelineName props) r (history env)
                    (props_behavior props)")
      case (Returns u')
      then show ?thesis
        by (simp add: onLaunch_all_return [OF assms r logged])
    next
      case (Throws e)
      then show ?thesis
        by (simp add: onLaunch_handler_throws [OF assms r logged])
    qed
  qed
qed

theorem telemetry_exactly_when_submission_returns_witness:
  "props_getVariables (props_with (Returns (Some job_variables))) () =
     Returns (Some job_variables) \<and>
   telemetry_of (fst (onLaunch (props_with (Returns (Some job_variables)))
       (env_with True (Returns ''run1'') (Returns ()) (Throws ''handler failed'')))) =
     [(LAUNCH_RUN, onLaunch_metadata job_variables)] \<and>
   take 2 (fst (onLaunch (props_with (Returns (Some job_variables)))
       (env_with True (Returns ''run1'') (Returns ()) (Throws ''handler failed'')))) =
     [CallLaunchPipelineExecution job_variables,
      CallLogTelemetry LAUNCH_RUN (onLaunch_metadata job_variables)] \<and>
   telemetry_of (fst (onLaunch (props_with (Returns (Some job_variables)))
       (env_with True (Throws ''Failed to fetch'') (Returns ()) (Returns ())))) = []"
proof -
  have h: "props_getVariables (props_with (Returns (Some job_variables))) () =
     Returns (Some job_variables)"
    by (simp add: props_with_def)
  show ?thesis
    using h
      telemetry_exactly_when_submission_returns [OF h,
        of "env_with True (Returns ''run1'') (Returns ()) (Throws ''handler failed'')"]
      telemetry_exactly_when_submission_returns [OF h,
        of "env_with True (Throws ''Failed to fetch'') (Returns ()) (Returns ())"]
    by (simp add: env_with_def)
qed

text \<open>
  C4. When the submission call throws or rejects with \<open>e\<close>, the handler passes exactly
  \<open>e\<close> to \<open>showLaunchError\<close>; after the throw neither the result handler nor the
  telemetry function is called, and the handler itself returns (the error does not
  leave it).
\<close>

theorem submission_error_is_shown_and_absorbed:
  assumes "props_getVariables props () = Returns (Some v)"
    and "launchPipelineExecution env v = Throws e"
  shows "fst (onLaunch props env) =
           [CallLaunchPipelineExecution v, CallShowLaunchError e] \<and>
         telemetry_of (fst (onLaunch props env)) = [] \<and>
         snd (onLaunch props env) = Returns ()"
  by (simp add: onLaunch_submission_throws [OF assms])

theorem submission_error_is_shown_and_absorbed_witness:
  "props_getVariables (props_with (Returns (Some job_variables))) () =
     Returns (Some job_variables) \<and>
   launchPipelineExecution
     (env_with True (Throws ''Failed to fetch'') (Returns ()) (Returns ()))
     job_variables = Throws ''Failed to fetch'' \<and>
   onLaunch (props_with (Returns (Some job_variables)))
     (env_with True (Throws ''Failed to fetch'') (Returns ()) (Returns ())) =
     ([CallLaunchPipelineExecution job_variables,
       CallShowLaunchError ''Failed to fetch''], Returns ())"
proof -
  have h1: "props_getVariables (props_with (Returns (Some job_variables))) () =
     Returns (Some job_variables)"
    by (simp add: props_with_def)
  have h2: "launchPipelineExecution
              (env_with True (Throws ''Failed to fetch'') (Returns ()) (Returns ()))
              job_variables = Throws ''Failed to fetch''"
    by (simp add: env_with_def)
  show ?thesis
    using h1 h2 submission_error_is_shown_and_absorbed [OF h1 h2]
    by (simp add: prod_eq_iff)
qed

text \<open>
  C7. In an invocation that passes the parameter gate (the provider returned a request)
  the mutation is invoked exactly once, however the calls complete (there is no retry);
  and no invocation emits more than one telemetry event.
\<close>

theorem one_submission_at_most_one_telemetry:
  "length (telemetry_of (fst (onLaunch props env))) \<le> 1 \<and>
   (\<forall>v. props_getVariables props () = Returns (Some v) \<longrightarrow>
      filter is_mutation_call (fst (onLaunch props env)) =
        [CallLaunchPipelineExecution v])"
proof (cases "props_getVariables props ()")
  case (Throws e)
  then show ?thesis
    by (simp add: onLaunch_provider_throws)
next
  case (Returns x)
  show ?thesis
  proof (cases x)
    case None
    with Returns show ?thesis
      by (simp add: onLaunch_no_variables)
  next
    case (Some v)
    with Returns have req: "props_getVariables props () = Returns (Some v)"
      by simp
    have "length (telemetry_of (fst (onLaunch props env))) \<le> 1"
      by (cases "launchPipelineExecution env v")
         (simp_all add: telemetry_of_onLaunch [OF req])
    then show ?thesis
      using req mutation_calls_of_onLaunch [OF req, of env] by simp
  qed
qed

theorem one_submission_at_most_one_telemetry_witness:
  "props_getVariables (props_with (Returns (Some pipeline_variables))) () =
     Returns (Some pipeline_variables) \<and>
   filter is_mutation_call (fst (onLaunch (props_with (Returns (Some pipeline_variables)))
       (env_with True (Returns ''run1'') (Throws ''telemetry failed'') (Returns ())))) =
     [CallLaunchPipelineExecution pipeline_variables] \<and>
   length (telemetry_of (fst (onLaunch (props_with (Returns (Some pipeline_variables)))
       (env_with True (Returns ''run1'') (Throws ''telemetry failed'') (Returns ())))))
     \<le> 1"
proof -
  have h: "props_getVariables (props_with (Returns (Some pipeline_variables))) () =
             Returns (Some pipeline_variables)"
    by (simp add: props_with_def)
  show ?thesis
    using h one_submission_at_most_one_telemetry
      [of "props_with (Returns (Some pipeline_variables))"
          "env_with True (Returns ''run1'') (Throws ''telemetry failed'') (Returns ())"]
    by simp
qed

text \<open>
  C9, as the specification states it, ends: the handler never rejects, in every
  invocation. The provider \<open>getVariables\<close> is called before the \<open>try\<close> block; when that
  call throws, nothing catches the exception: no call is made, \<open>showLaunchError\<close>
  among them, and the handler rejects with the provider's exception.
\<close>

theorem throwing_provider_rejects:
  "props_getVariables (props_with (Throws ''provider failed'')) () =
     Throws ''provider failed'' \<and>
   onLaunch (props_with (Throws ''provider failed''))
     (env_with True (Returns ''run1'') (Returns ()) (Returns ())) =
     ([], Throws ''provider failed'') \<and>
   snd (onLaunch (props_with (Throws ''provider failed''))
     (env_with True (Returns ''run1'') (Returns ()) (Returns ()))) \<noteq> Returns ()"
proof -
  have h: "props_getVariables (props_with (Throws ''provider failed'')) () =
             Throws ''provider failed''"
    by (simp add: props_with_def)
  show ?thesis
    by (simp add: h onLaunch_provider_throws [OF h])
qed

text \<open>
  C9, as the code has it. The \<open>try\<close> block holds the telemetry call and the result
  handler as well as the submission: after a submission that returned, an exception of
  the telemetry function or of the result handler is caught and passed to
  \<open>showLaunchError\<close>. In every invocation in which the call of the provider returned
  (a request or none) the handler returns rather than rejects; when the call of the
  provider throws, the handler makes no call and rejects with that exception.
\<close>

theorem try_block_covers_telemetry_and_result_handler:
  "(\<forall>x. props_getVariables props () = Returns x \<longrightarrow>
      snd (onLaunch props env) = Returns ()) \<and>
   (\<forall>e. props_getVariables props () = Throws e \<longrightarrow>
      onLaunch props env = ([], Throws e)) \<and>
   (\<forall>v r e. props_getVariables props () = Returns (Some v) \<and>
        launchPipelineExecution env v = Returns r \<and>
        logTelemetry env LAUNCH_RUN (onLaunch_metadata v) = Throws e \<longrightarrow>
      fst (onLaunch props env) =
        [CallLaunchPipelineExecution v,
         CallLogTelemetry LAUNCH_RUN (onLaunch_metadata v),
         CallShowLaunchError e]) \<and>
   (\<forall>v r e. props_getVariables props () = Returns (Some v) \<and>
        launchPipelineExecution env v = Returns r \<and>
        logTelemetry env LAUNCH_RUN (onLaunch_metadata v) = Returns () \<and>
        handleLaunchResult env (props_pipelineName props) r (history env)
          (props_behavior props) = Throws e \<longrightarrow>
      fst (onLaunch props env) =
        [CallLaunchPipelineExecution v,
         CallLogTelemetry LAUNCH_RUN (onLaunch_metadata v),
         CallHandleLaunchResult (props_pipelineName props) r (history env)
           (props_behavior props),
         CallShowLaunchError e])"
proof (intro conjI allI impI)
  fix x
  assume "props_getVariables props () = Returns x"
  then show "snd (onLaunch props env) = Returns ()"
    by (rule onLaunch_completes)
next
  fix e
  assume "props_getVariables props () = Throws e"
  then show "onLaunch props env = ([], Throws e)"
    by (rule onLaunch_provider_throws)
next
  fix v r e
  assume "props_getVariables props () = Returns (Some v) \<and>
          launchPipelineExecution env v = Returns r \<and>
          logTelemetry env LAUNCH_RUN (onLaunch_metadata v) = Throws e"
  then show "fst (onLaunch props env) =
               [CallLaunchPipelineExecution v,
                CallLogTelemetry LAUNCH_RUN (onLaunch_metadata v),
                CallShowLaunchError e]"
    by (simp add: onLaunch_telemetry_throws)
next
  fix v r e
  assume "props_getVariables props () = Returns (Some v) \<and>
          launchPipelineExecution env v = Returns r \<and>
          logTelemetry env LAUNCH_RUN (onLaunch_metadata v) = Returns () \<and>
          handleLaunchResult env (props_pipelineName props) r (history env)
            (props_behavior props) = Throws e"
  then show "fst (onLaunch props env) =
               [CallLaunchPipelineExecution v,
                CallLogTelemetry LAUNCH_RUN (onLaunch_metadata v),
                CallHandleLaunchResult (props_pipelineName props) r (history env)
                  (props_behavior props),
                CallShowLaunchError e]"
    by (simp add: onLaunch_handler_throws)
qed

theorem try_block_covers_telemetry_and_result_handler_witness:
  "props_getVariables (props_with (Returns (Some job_variables))) () =
     Returns (Some job_variables) \<and>
   onLaunch (props_with (Throws ''provider failed''))
     (env_with True (Returns ''run1'') (Returns ()) (Returns ())) =
     ([], Throws ''provider failed'') \<and>
   onLaunch (props_with (Returns (Some job_variables)))
     (env_with True (Returns ''run1'') (Throws ''telemetry failed'') (Returns ())) =
     ([CallLaunchPipelineExecution job_variables,
       CallLogTelemetry LAUNCH_RUN (onLaunch_metadata job_variables),
       CallShowLaunchError ''telemetry failed''], Returns ()) \<and>
   onLaunch (props_with (Returns (Some job_variables)))
     (env_with True (Returns ''run1'') (Returns ()) (Throws ''handler failed'')) =
     ([CallLaunchPipelineExecution job_variables,
       CallLogTelemetry LAUNCH_RUN (onLaunch_metadata job_variables),
       CallHandleLaunchResult ''my_job'' ''run1'' () Open,
       CallShowLaunchError ''handler failed''], Returns ())"
  using
    try_block_covers_telemetry_and_result_handler
      [of "props_with (Returns (Some job_variables))"
          "env_with True (Returns ''run1'') (Throws ''telemetry failed'') (Returns ())"]
    try_block_covers_telemetry_and_result_handler
      [of "props_with (Returns (Some job_variables))"
          "env_with True (Returns ''run1'') (Returns ()) (Throws ''handler failed'')"]
    try_block_covers_telemetry_and_result_handler
      [of "props_with (Throws ''provider failed'')"
          "env_with True (Returns ''run1'') (Returns ()) (Returns ())"]
  by (simp add: props_with_def env_with_def prod_eq_iff)

text \<open>
  C8. When the caller lacks the launch permission (\<open>canLaunchPipelineExecution\<close> is
  false) the configuration handed to the launch button has \<open>disabled\<close> set and carries
  \<open>DISABLED_MESSAGE\<close> as its tooltip; with the permission the tooltip is
  \<open>undefined\<close>.
\<close>

theorem no_permission_disables_button:
  "(\<not> canLaunchPipelineExecution env \<longrightarrow>
      disabled (config (LaunchRootExecutionButton props env)) \<and>
      tooltip (config (LaunchRootExecutionButton props env)) = Val (DISABLED_MESSAGE env)) \<and>
   (canLaunchPipelineExecution env \<longrightarrow>
      tooltip (config (LaunchRootExecutionButton props env)) = Undefined)"
  by (simp add: LaunchRootExecutionButton_def)

theorem no_permission_disables_button_witness:
  "\<not> canLaunchPipelineExecution
       (env_with False (Returns ''run1'') (Returns ()) (Returns ())) \<and>
   disabled (config (LaunchRootExecutionButton (props_with (Returns (Some job_variables)))
     (env_with False (Returns ''run1'') (Returns ()) (Returns ())))) \<and>
   tooltip (config (LaunchRootExecutionButton (props_with (Returns (Some job_variables)))
     (env_with False (Returns ''run1'') (Returns ()) (Returns ())))) =
     Val ''no permission'' \<and>
   canLaunchPipelineExecution
     (env_with True (Returns ''run1'') (Returns ()) (Returns ())) \<and>
   tooltip (config (LaunchRootExecutionButton (props_with (Returns (Some job_variables)))
     (env_with True (Returns ''run1'') (Returns ()) (Returns ())))) = Undefined"
  using
    no_permission_disables_button
      [of "env_with False (Returns ''run1'') (Returns ()) (Returns ())"
          "props_with (Returns (Some job_variables))"]
    no_permission_disables_button
      [of "env_with True (Returns ''run1'') (Returns ()) (Returns ())"
          "props_with (Returns (Some job_variables))"]
  by (simp add: env_with_def)

text \<open>
  C5. The metadata built for a request has the key \<open>opSelection\<close> with the value
  \<open>provided\<close> if and only if the request's selector carries an op subset (its
  \<open>solidSelection\<close> holds an array); without a subset the key is absent. Every
  telemetry event the handler emits for the request carries this metadata.
\<close>

theorem opSelection_provided_iff_subset:
  "((onLaunch_metadata v) ''opSelection'' = Some (Val ''provided'')) =
     (\<exists>xs. solidSelection (selector (executionParams v)) = Val xs) \<and>
   ((\<nexists>xs. solidSelection (selector (executionParams v)) = Val xs) \<longrightarrow>
      (onLaunch_metadata v) ''opSelection'' = None) \<and>
   (props_getVariables props () = Returns (Some v) \<and>
      (a, md) \<in> set (telemetry_of (fst (onLaunch props env))) \<longrightarrow>
      md = onLaunch_metadata v)"
proof (intro conjI impI)
  show "((onLaunch_metadata v) ''opSelection'' = Some (Val ''provided'')) =
          (\<exists>xs. solidSelection (selector (executionParams v)) = Val xs)"
    by (simp add: onLaunch_metadata_opSelection truthy_array_iff)
next
  assume "\<nexists>xs. solidSelection (selector (executionParams v)) = Val xs"
  then show "(onLaunch_metadata v) ''opSelection'' = None"
    by (simp add: onLaunch_metadata_opSelection truthy_array_iff)
next
  assume "props_getVariables props () = Returns (Some v) \<and>
          (a, md) \<in> set (telemetry_of (fst (onLaunch props env)))"
  then show "md = onLaunch_metadata v"
    using emitted_metadata [of props v a md env] by simp
qed

theorem opSelection_provided_iff_subset_witness:
  "(onLaunch_metadata job_variables) ''opSelection'' = Some (Val ''provided'') \<and>
   solidSelection (selector (executionParams job_variables)) = Val [''a'', ''b''] \<and>
   (\<nexists>xs. solidSelection (selector (executionParams pipeline_variables)) = Val xs) \<and>
   (onLaunch_metadata pipeline_variables) ''opSelection'' = None \<and>
   props_getVariables (props_with (Returns (Some job_variables))) () = Returns (Some job_variables) \<and>
   (LAUNCH_RUN, onLaunch_metadata job_variables) \<in>
     set (telemetry_of (fst (onLaunch (props_with (Returns (Some job_variables)))
       (env_with True (Returns ''run1'') (Returns ()) (Returns ())))))"
proof -
  have sel: "solidSelection (selector (executionParams job_variables)) = Val [''a'', ''b'']"
    by (simp add: job_variables_def)
  have none: "\<nexists>xs. solidSelection (selector (executionParams pipeline_variables)) = Val xs"
    by (simp add: pipeline_variables_def)
  have req: "props_getVariables (props_with (Returns (Some job_variables))) () =
     Returns (Some job_variables)"
    by (simp add: props_with_def)
  have emitted: "(LAUNCH_RUN, onLaunch_metadata job_variables) \<in>
      set (telemetry_of (fst (onLaunch (props_with (Returns (Some job_variables)))
        (env_with True (Returns ''run1'') (Returns ()) (Returns ())))))"
    by (simp add: telemetry_of_onLaunch [OF req] env_with_def)
  show ?thesis
    using sel none req emitted
      opSelection_provided_iff_subset [of job_variables "props_with (Returns (Some job_variables))"
        LAUNCH_RUN "onLaunch_metadata job_variables"
        "env_with True (Returns ''run1'') (Returns ()) (Returns ())"]
      opSelection_provided_iff_subset [of pipeline_variables
        "props_with (Returns (Some job_variables))" LAUNCH_RUN "onLaunch_metadata job_variables"
        "env_with True (Returns ''run1'') (Returns ()) (Returns ())"]
    by simp
qed

text \<open>
  C6. The metadata's \<open>jobName\<close> is the selector's \<open>jobName\<close> field when that field is
  set (it holds a non-empty string), and the selector's legacy \<open>pipelineName\<close> field
  otherwise. Every telemetry event emitted for the request carries this metadata.
\<close>

theorem jobName_prefers_job_then_pipeline:
  "(\<forall>s. jobName (selector (executionParams v)) = Val s \<and> s \<noteq> [] \<longrightarrow>
      (onLaunch_metadata v) ''jobName'' = Some (Val s)) \<and>
   ((\<nexists>s. jobName (selector (executionParams v)) = Val s \<and> s \<noteq> []) \<longrightarrow>
      (onLaunch_metadata v) ''jobName'' =
        Some (pipelineName (selector (executionParams v)))) \<and>
   (props_getVariables props () = Returns (Some v) \<and>
      (a, md) \<in> set (telemetry_of (fst (onLaunch props env))) \<longrightarrow>
      md ''jobName'' = (onLaunch_metadata v) ''jobName'')"
proof (intro conjI allI impI)
  fix s
  assume "jobName (selector (executionParams v)) = Val s \<and> s \<noteq> []"
  then show "(onLaunch_metadata v) ''jobName'' = Some (Val s)"
    by (simp add: onLaunch_metadata_jobName js_or_def)
next
  assume "\<nexists>s. jobName (selector (executionParams v)) = Val s \<and> s \<noteq> []"
  then have "\<not> truthy_string (jobName (selector (executionParams v)))"
    by (simp add: truthy_string_iff)
  then show "(onLaunch_metadata v) ''jobName'' =
               Some (pipelineName (selector (executionParams v)))"
    by (simp add: onLaunch_metadata_jobName js_or_def)
next
  assume "props_getVariables props () = Returns (Some v) \<and>
          (a, md) \<in> set (telemetry_of (fst (onLaunch props env)))"
  then show "md ''jobName'' = (onLaunch_metadata v) ''jobName''"
    using emitted_metadata [of props v a md env] by simp
qed

theorem jobName_prefers_job_then_pipeline_witness:
  "jobName (selector (executionParams job_variables)) = Val ''my_job'' \<and>
   (onLaunch_metadata job_variables) ''jobName'' = Some (Val ''my_job'') \<and>
   (\<nexists>s. jobName (selector (executionParams pipeline_variables)) = Val s \<and> s \<noteq> []) \<and>
   (onLaunch_metadata pipeline_variables) ''jobName'' = Some (Val ''legacy'') \<and>
   props_getVariables (props_with (Returns (Some job_variables))) () = Returns (Some job_variables) \<and>
   (LAUNCH_RUN, onLaunch_metadata job_variables) \<in>
     set (telemetry_of (fst (onLaunch (props_with (Returns (Some job_variables)))
       (env_with True (Returns ''run1'') (Returns ()) (Returns ())))))"
proof -
  have job: "jobName (selector (executionParams job_variables)) = Val ''my_job''"
    by (simp add: job_variables_def)
  have none: "\<nexists>s. jobName (selector (executionParams pipeline_variables)) = Val s \<and> s \<noteq> []"
    by (simp add: pipeline_variables_def)
  have legacy: "pipelineName (selector (executionParams pipeline_variables)) = Val ''legacy''"
    by (simp add: pipeline_variables_def)
  have req: "props_getVariables (props_with (Returns (Some job_variables))) () =
     Returns (Some job_variables)"
    by (simp add: props_with_def)
  have emitted: "(LAUNCH_RUN, onLaunch_metadata job_variables) \<in>
      set (telemetry_of (fst (onLaunch (props_with (Returns (Some job_variables)))
        (env_with True (Returns ''run1'') (Returns ()) (Returns ())))))"
    by (simp add: telemetry_of_onLaunch [OF req] env_with_def)
  show ?thesis
    using job none legacy req emitted
      jobName_prefers_job_then_pipeline [of job_variables "props_with (Returns (Some job_variables))"
        LAUNCH_RUN "onLaunch_metadata job_variables"
        "env_with True (Returns ''run1'') (Returns ()) (Returns ())"]
      jobName_prefers_job_then_pipeline [of pipeline_variables
        "props_with (Returns (Some job_variables))" LAUNCH_RUN "onLaunch_metadata job_variables"
        "env_with True (Returns ''run1'') (Returns ()) (Returns ())"]
    by simp
qed

text \<open>
  C10. The key \<open>jobName\<close> is present in the metadata of every request, hence of every
  emitted telemetry event, also when both name fields of the selector are empty
  (\<open>undefined\<close>, \<open>null\<close> or the empty string); its value is then the value of the
  \<open>pipelineName\<close> field.
\<close>

theorem jobName_key_always_present:
  "(onLaunch_metadata v) ''jobName'' \<noteq> None \<and>
   (jobName (selector (executionParams v)) \<in> {Undefined, Null, Val []} \<and>
    pipelineName (selector (executionParams v)) \<in> {Undefined, Null, Val []} \<longrightarrow>
      (onLaunch_metadata v) ''jobName'' =
        Some (pipelineName (selector (executionParams v)))) \<and>
   (props_getVariables props () = Returns (Some v) \<and>
      (a, md) \<in> set (telemetry_of (fst (onLaunch props env))) \<longrightarrow>
      md ''jobName'' \<noteq> None)"
proof (intro conjI impI)
  show "(onLaunch_metadata v) ''jobName'' \<noteq> None"
    by (simp add: onLaunch_metadata_jobName)
next
  assume "jobName (selector (executionParams v)) \<in> {Undefined, Null, Val []} \<and>
          pipelineName (selector (executionParams v)) \<in> {Undefined, Null, Val []}"
  then have "\<not> truthy_string (jobName (selector (executionParams v)))"
    by (simp add: falsy_string_iff)
  then show "(onLaunch_metadata v) ''jobName'' =
               Some (pipelineName (selector (executionParams v)))"
    by (simp add: onLaunch_metadata_jobName js_or_def)
next
  assume "props_getVariables props () = Returns (Some v) \<and>
          (a, md) \<in> set (telemetry_of (fst (onLaunch props env)))"
  then have "md = onLaunch_metadata v"
    using emitted_metadata [of props v a md env] by simp
  then show "md ''jobName'' \<noteq> None"
    by (simp add: onLaunch_metadata_jobName)
qed

theorem jobName_key_always_present_witness:
  "jobName (selector (executionParams nameless_variables)) \<in> {Undefined, Null, Val []} \<and>
   pipelineName (selector (executionParams nameless_variables)) \<in>
     {Undefined, Null, Val []} \<and>
   (onLaunch_metadata nameless_variables) ''jobName'' = Some (Val []) \<and>
   props_getVariables (props_with (Returns (Some nameless_variables))) () = Returns (Some nameless_variables) \<and>
   (LAUNCH_RUN, onLaunch_metadata nameless_variables) \<in>
     set (telemetry_of (fst (onLaunch (props_with (Returns (Some nameless_variables)))
       (env_with True (Returns ''run1'') (Returns ()) (Returns ()))))) \<and>
   (onLaunch_metadata nameless_variables) ''opSelection'' = None"
proof -
  have job: "jobName (selector (executionParams nameless_variables)) = Undefined"
    by (simp add: nameless_variables_def)
  have pipeline: "pipelineName (selector (executionParams nameless_variables)) = Val []"
    by (simp add: nameless_variables_def)
  have req: "props_getVariables (props_with (Returns (Some nameless_variables))) () =
               Returns (Some nameless_variables)"
    by (simp add: props_with_def)
  have emitted: "(LAUNCH_RUN, onLaunch_metadata nameless_variables) \<in>
      set (telemetry_of (fst (onLaunch (props_with (Returns (Some nameless_variables)))
        (env_with True (Returns ''run1'') (Returns ()) (Returns ())))))"
    by (simp add: telemetry_of_onLaunch [OF req] env_with_def)
  have absent: "(onLaunch_metadata nameless_variables) ''opSelection'' = None"
    by (simp add: onLaunch_metadata_opSelection nameless_variables_def)
  show ?thesis
    using job pipeline req emitted absent
      jobName_key_always_present [of nameless_variables
        "props_with (Returns (Some nameless_variables))" LAUNCH_RUN
        "onLaunch_metadata nameless_variables"
        "env_with True (Returns ''run1'') (Returns ()) (Returns ())"]
    by simp
qed

text \<open>
  C2, as the specification states it: a request whose job name and pipeline name are
  both empty is aborted, with no network call and no telemetry. The handler has no such
  check. For the request \<open>nameless_variables\<close> (job name \<open>undefined\<close>, pipeline name the
  empty string) and a mutation that returns, the mutation is invoked and the telemetry
  event is emitted.
\<close>

theorem nameless_request_is_not_aborted:
  "props_getVariables (props_with (Returns (Some nameless_variables))) () =
     Returns (Some nameless_variables) \<and>
   jobName (selector (executionParams nameless_variables)) = Undefined \<and>
   pipelineName (selector (executionParams nameless_variables)) = Val [] \<and>
   filter is_mutation_call (fst (onLaunch (props_with (Returns (Some nameless_variables)))
       (env_with True (Returns ''run1'') (Returns ()) (Returns ())))) \<noteq> [] \<and>
   telemetry_of (fst (onLaunch (props_with (Returns (Some nameless_variables)))
       (env_with True (Returns ''run1'') (Returns ()) (Returns ())))) \<noteq> []"
proof -
  have req: "props_getVariables (props_with (Returns (Some nameless_variables))) () =
               Returns (Some nameless_variables)"
    by (simp add: props_with_def)
  show ?thesis
    by (simp add: req mutation_calls_of_onLaunch [OF req] telemetry_of_onLaunch [OF req])
       (simp add: nameless_variables_def env_with_def)
qed

text \<open>
  C2, as the code has it: the handler has no check of the names. A request whose job
  name and pipeline name are both empty is submitted: the mutation is invoked exactly
  once with the request, the telemetry event is emitted exactly when the mutation
  returns, and the metadata's \<open>jobName\<close> is the value of the \<open>pipelineName\<close> field.
  When the call of the provider returned, the handler makes no call at all (no network
  call, no telemetry) if and only if the provider returned no request.
\<close>

theorem nameless_request_is_submitted:
  "(props_getVariables props () = Returns (Some v) \<and>
    jobName (selector (executionParams v)) \<in> {Undefined, Null, Val []} \<and>
    pipelineName (selector (executionParams v)) \<in> {Undefined, Null, Val []} \<longrightarrow>
      filter is_mutation_call (fst (onLaunch props env)) =
        [CallLaunchPipelineExecution v] \<and>
      telemetry_of (fst (onLaunch props env)) =
        (case launchPipelineExecution env v of
           Returns r \<Rightarrow> [(LAUNCH_RUN, onLaunch_metadata v)]
         | Throws e \<Rightarrow> []) \<and>
      (onLaunch_metadata v) ''jobName'' =
        Some (pipelineName (selector (executionParams v)))) \<and>
   (\<forall>x. props_getVariables props () = Returns x \<longrightarrow>
      (fst (onLaunch props env) = []) = (x = None))"
proof (intro conjI allI impI)
  assume h: "props_getVariables props () = Returns (Some v) \<and>
    jobName (selector (executionParams v)) \<in> {Undefined, Null, Val []} \<and>
    pipelineName (selector (executionParams v)) \<in> {Undefined, Null, Val []}"
  then have req: "props_getVariables props () = Returns (Some v)"
    by simp
  show "filter is_mutation_call (fst (onLaunch props env)) =
          [CallLaunchPipelineExecution v]"
    by (rule mutation_calls_of_onLaunch [OF req])
  show "telemetry_of (fst (onLaunch props env)) =
          (case launchPipelineExecution env v of
             Returns r \<Rightarrow> [(LAUNCH_RUN, onLaunch_metadata v)]
           | Throws e \<Rightarrow> [])"
    by (rule telemetry_of_onLaunch [OF req])
  from h have "\<not> truthy_string (jobName (selector (executionParams v)))"
    by (simp add: falsy_string_iff)
  then show "(onLaunch_metadata v) ''jobName'' =
               Some (pipelineName (selector (executionParams v)))"
    by (simp add: onLaunch_metadata_jobName js_or_def)
next
  fix x
  assume "props_getVariables props () = Returns x"
  then show "(fst (onLaunch props env) = []) = (x = None)"
    by (rule onLaunch_no_call_iff)
qed

theorem nameless_request_is_submitted_witness:
  "props_getVariables (props_with (Returns (Some nameless_variables))) () =
     Returns (Some nameless_variables) \<and>
   jobName (selector (executionParams nameless_variables)) \<in> {Undefined, Null, Val []} \<and>
   pipelineName (selector (executionParams nameless_variables)) \<in>
     {Undefined, Null, Val []} \<and>
   filter is_mutation_call (fst (onLaunch (props_with (Returns (Some nameless_variables)))
       (env_with True (Returns ''run1'') (Returns ()) (Returns ())))) =
     [CallLaunchPipelineExecution nameless_variables] \<and>
   telemetry_of (fst (onLaunch (props_with (Returns (Some nameless_variables)))
       (env_with True (Returns ''run1'') (Returns ()) (Returns ())))) =
     [(LAUNCH_RUN, onLaunch_metadata nameless_variables)] \<and>
   (onLaunch_metadata nameless_variables) ''jobName'' = Some (Val []) \<and>
   fst (onLaunch (props_with (Returns (Some nameless_variables)))
       (env_with True (Returns ''run1'') (Returns ()) (Returns ()))) \<noteq> [] \<and>
   props_getVariables (props_with (Returns None)) () = Returns None \<and>
   fst (onLaunch (props_with (Returns None))
       (env_with True (Returns ''run1'') (Returns ()) (Returns ()))) = []"
proof -
  have h1: "props_getVariables (props_with (Returns (Some nameless_variables))) () =
              Returns (Some nameless_variables)"
    by (simp add: props_with_def)
  have h2: "jobName (selector (executionParams nameless_variables)) \<in>
              {Undefined, Null, Val []}"
    by (simp add: nameless_variables_def)
  have h3: "pipelineName (selector (executionParams nameless_variables)) \<in>
              {Undefined, Null, Val []}"
    by (simp add: nameless_variables_def)
  have h4: "props_getVariables (props_with (Returns None)) () = Returns None"
    by (simp add: props_with_def)
  have p: "pipelineName (selector (executionParams nameless_variables)) = Val []"
    by (simp add: nameless_variables_def)
  have m: "launchPipelineExecution
             (env_with True (Returns ''run1'') (Returns ()) (Returns ()))
             nameless_variables = Returns ''run1''"
    by (simp add: env_with_def)
  show ?thesis
    using h1 h2 h3 h4 p m
      nameless_request_is_submitted [of "props_with (Returns (Some nameless_variables))"
        nameless_variables "env_with True (Returns ''run1'') (Returns ()) (Returns ())"]
      nameless_request_is_submitted [of "props_with (Returns None)"
        nameless_variables "env_with True (Returns ''run1'') (Returns ()) (Returns ())"]
    by simp
qed

end
